theory Spec2Isabelle
  imports Main "HOL-Library.Sublist"
begin

section \<open>Python strings\<close>

text \<open>
  Python \<open>str\<close> values are modelled as \<open>string\<close>. Identifiers, module names and path
  components are taken to be ASCII, so that a character is one \<open>char\<close>.
\<close>

definition startswith :: "string \<Rightarrow> string \<Rightarrow> bool" where
  "startswith s p = prefix p s"

definition endswith :: "string \<Rightarrow> string \<Rightarrow> bool" where
  "endswith s p = suffix p s"

text \<open>\<open>str_in sub s\<close> is Python's \<open>sub in s\<close> on strings: \<open>sub\<close> occurs contiguously in \<open>s\<close>.\<close>

fun str_in :: "string \<Rightarrow> string \<Rightarrow> bool" where
  "str_in sub [] = (sub = [])"
| "str_in sub (c # cs) = (prefix sub (c # cs) \<or> str_in sub cs)"

definition ascii_upper :: "char \<Rightarrow> bool" where
  "ascii_upper c = (65 \<le> (of_char c :: nat) \<and> (of_char c :: nat) \<le> 90)"

definition ascii_lower :: "char \<Rightarrow> bool" where
  "ascii_lower c = (97 \<le> (of_char c :: nat) \<and> (of_char c :: nat) \<le> 122)"

text \<open>
  \<open>str.isupper()\<close>: there is at least one cased character and no cased character is
  lower case.
\<close>

definition isupper :: "string \<Rightarrow> bool" where
  "isupper s = (list_ex ascii_upper s \<and> \<not> list_ex ascii_lower s)"

fun join :: "string \<Rightarrow> string list \<Rightarrow> string" where
  "join sep [] = []"
| "join sep [x] = x"
| "join sep (x # y # ys) = x @ sep @ join sep (y # ys)"

definition sq :: string where
  "sq = [CHR 0x27]"

definition digit_char :: "nat \<Rightarrow> char" where
  "digit_char d = ''0123456789'' ! d"

function str_nat :: "nat \<Rightarrow> string" where
  "str_nat n = (if n < 10 then [digit_char n] else str_nat (n div 10) @ [digit_char (n mod 10)])"
  by pat_completeness auto
termination
  by (relation "measure (\<lambda>n. n)") auto

declare str_nat.simps [simp del]

text \<open>\<open>str(i)\<close> for a Python \<open>int\<close>.\<close>

definition str_int :: "int \<Rightarrow> string" where
  "str_int i = (if i < 0 then ''-'' @ str_nat (nat (- i)) else str_nat (nat i))"

text \<open>\<open>str(x)\<close> for a value that is an \<open>int\<close> or \<open>None\<close>.\<close>

definition str_opt_nat :: "nat option \<Rightarrow> string" where
  "str_opt_nat x = (case x of None \<Rightarrow> ''None'' | Some n \<Rightarrow> str_nat n)"

section \<open>Syntax trees\<close>

text \<open>
  The node classes of Python's \<open>ast\<close> module that the passes test with \<open>isinstance\<close>, each
  with the attributes the passes read. Every other node class is \<open>Other\<close> with its child
  nodes in field order. In \<open>FunctionDef\<close> the \<open>arguments\<close> node is spread over three
  fields: the names of \<open>args.args\<close>, the child nodes of \<open>arguments\<close> that come before the
  defaults (the \<open>arg\<close> nodes and the keyword-only defaults), and \<open>args.defaults\<close>; the last
  field before the line number holds the children after \<open>decorator_list\<close> (the return
  annotation). In \<open>ClassDef\<close> the bases and the class keywords share one field and type
  parameters are left out, and in \<open>Call\<close> the third field holds the \<open>keyword\<close> nodes.
\<close>

datatype expr_context = Load | Store | Del

datatype import_alias = Alias string "string option"

datatype node =
    Import "import_alias list"
  | ImportFrom "string option" "import_alias list"
  | Assign "node list" node
  | FunctionDef string "string list" "node list" "node list" "node list" "node list" "node list" nat
  | ClassDef string "node list" "node list" "node list" nat
  | Call node "node list" "node list" nat
  | Name string expr_context nat
  | Other "node list"

text \<open>\<open>ast.iter_child_nodes\<close>: the child nodes in field order.\<close>

fun children :: "node \<Rightarrow> node list" where
  "children (Import names) = map (\<lambda>a. Other []) names"
| "children (ImportFrom modname names) = map (\<lambda>a. Other []) names"
| "children (Assign targets v) = targets @ [v]"
| "children (FunctionDef name arg_names arg_nodes defaults body decorator_list rest lineno) =
     Other (arg_nodes @ defaults) # body @ decorator_list @ rest"
| "children (ClassDef name bases body decorator_list lineno) = bases @ body @ decorator_list"
| "children (Call func args keywords lineno) = func # args @ keywords"
| "children (Name ident ctx lineno) = [Other []]"
| "children (Other cs) = cs"

fun weight :: "node \<Rightarrow> nat" where
  "weight (Import names) = Suc (length names)"
| "weight (ImportFrom modname names) = Suc (length names)"
| "weight (Assign targets v) = Suc (sum_list (map weight targets) + weight v)"
| "weight (FunctionDef name arg_names arg_nodes defaults body decorator_list rest lineno) =
     Suc (Suc (sum_list (map weight arg_nodes) + sum_list (map weight defaults)
       + sum_list (map weight body) + sum_list (map weight decorator_list)
       + sum_list (map weight rest)))"
| "weight (ClassDef name bases body decorator_list lineno) =
     Suc (sum_list (map weight bases) + sum_list (map weight body)
       + sum_list (map weight decorator_list))"
| "weight (Call func args keywords lineno) =
     Suc (weight func + sum_list (map weight args) + sum_list (map weight keywords))"
| "weight (Name ident ctx lineno) = Suc (Suc 0)"
| "weight (Other cs) = Suc (sum_list (map weight cs))"

lemma sum_list_const_one: "sum_list (map (\<lambda>x. Suc 0) xs) = length xs"
  by (induction xs) simp_all

lemma weight_children: "sum_list (map weight (children n)) < weight n"
  by (cases n) (simp_all add: comp_def sum_list_const_one)

text \<open>
  \<open>ast.walk\<close>: a queue starts with the root; the first node is taken off, its children
  are put at the end, and the node is yielded. The order is breadth first.
\<close>

function walk_queue :: "node list \<Rightarrow> node list" where
  "walk_queue [] = []"
| "walk_queue (n # todo) = n # walk_queue (todo @ children n)"
  by pat_completeness auto
termination
proof (relation "measure (\<lambda>q. sum_list (map weight q))")
  show "wf (measure (\<lambda>q. sum_list (map weight q)))" by simp
next
  fix n :: node and todo :: "node list"
  show "(todo @ children n, n # todo) \<in> measure (\<lambda>q. sum_list (map weight q))"
    using weight_children [of n] by simp
qed

definition walk :: "node \<Rightarrow> node list" where
  "walk tree = walk_queue [tree]"

section \<open>The environment of the analyzer\<close>

text \<open>
  The analyzer reads a file tree, decodes and parses files and imports modules. These are
  the host's operations; their outcomes are parameters of the model. An operation that
  raises returns the exception as a value, with the text that \<open>str(e)\<close> gives for it.
\<close>

datatype entry = File string | Dir string "entry list"

datatype read_result =
    Content string
  | UnicodeDecodeError string
  | ReadError string

record syntax_error =
  se_lineno :: "nat option"
  se_msg :: string

datatype parse_result =
    Parsed node
  | SyntaxError syntax_error
  | ParseError string

text \<open>
  \<open>importlib.import_module\<close> runs the module's code. It returns, raises \<open>ImportError\<close>,
  raises another exception of class \<open>Exception\<close>, or raises an exception outside
  \<open>Exception\<close> (\<open>SystemExit\<close> from a module that calls \<open>sys.exit\<close> when it is loaded), which
  no \<open>except Exception\<close> clause catches. What the code of a loaded module does to
  \<open>sys.path\<close> or to the module cache is outside the model, and so is an interrupt from
  the keyboard, which can arrive at any statement.
\<close>

datatype import_result =
    Imported
  | ImportError string
  | ImportException string
  | ImportBaseException string

text \<open>
  \<open>root_listing\<close> is \<open>None\<close> when the project root cannot be listed (it does not exist or
  is not a directory), else the entries of the root directory. A directory that cannot be
  listed has no entries.
\<close>

record env =
  root_listing :: "entry list option"
  read_text :: "string \<Rightarrow> read_result"
  ast_parse :: "string \<Rightarrow> parse_result"
  import_module :: "string \<Rightarrow> import_result"

text \<open>
  \<open>str(e)\<close> for a \<open>SyntaxError\<close> raised by the parser for a file name: the message, then
  the base name of the file and the line in brackets.
\<close>

definition str_SyntaxError :: "string \<Rightarrow> syntax_error \<Rightarrow> string" where
  "str_SyntaxError fname e =
     (case se_lineno e of
        Some n \<Rightarrow> se_msg e @ '' ('' @ fname @ '', line '' @ str_nat n @ '')''
      | None \<Rightarrow> se_msg e @ '' ('' @ fname @ '')'')"

text \<open>
  A source file is the list of its path components below the project root; \<open>path_str\<close> is
  \<open>str(file_path)\<close> and \<open>rel_str\<close> is \<open>str(file_path.relative_to(project_root))\<close>. Paths
  are POSIX paths and the root is written without a trailing separator.
\<close>

type_synonym relpath = "string list"

definition path_str :: "string \<Rightarrow> relpath \<Rightarrow> string" where
  "path_str root rel = root @ concat (map (\<lambda>c. ''/'' @ c) rel)"

definition rel_str :: "relpath \<Rightarrow> string" where
  "rel_str rel = join ''/'' rel"

definition path_name :: "relpath \<Rightarrow> string" where
  "path_name rel = (if rel = [] then [] else last rel)"

text \<open>\<open>Path.stem\<close>: the final component without its last suffix.\<close>

definition stem :: "relpath \<Rightarrow> string" where
  "stem rel =
     (let name = path_name rel;
          k = length (takeWhile (\<lambda>c. c \<noteq> CHR ''.'') (rev name))
      in if k < length name \<and> 0 < k \<and> k + 1 < length name
         then take (length name - 1 - k) name else name)"

text \<open>
  The analyzer object's two buckets and the interpreter's module search path
  \<open>sys.path\<close>. The project root is a parameter of every operation, as \<open>str(project_root)\<close>.
\<close>

record state =
  errors :: "string list"
  warnings :: "string list"
  sys_path :: "string list"

record result =
  r_errors :: "string list"
  r_warnings :: "string list"

definition add_error :: "string \<Rightarrow> state \<Rightarrow> state" where
  "add_error m st = st\<lparr>errors := errors st @ [m]\<rparr>"

definition add_warning :: "string \<Rightarrow> state \<Rightarrow> state" where
  "add_warning m st = st\<lparr>warnings := warnings st @ [m]\<rparr>"

definition add_errors :: "string list \<Rightarrow> state \<Rightarrow> state" where
  "add_errors ms st = st\<lparr>errors := errors st @ ms\<rparr>"

definition add_warnings :: "string list \<Rightarrow> state \<Rightarrow> state" where
  "add_warnings ms st = st\<lparr>warnings := warnings st @ ms\<rparr>"

text \<open>
  The repository holds the analyzer twice: \<open>code_analyzer.py\<close> at the top level (\<open>Root\<close>)
  and \<open>src/analyzers/code_analyzer.py\<close> in the package (\<open>Pkg\<close>). A pass whose two copies
  differ only in message texts, or in a start value, takes the version as a parameter.
\<close>

datatype impl = Root | Pkg

section \<open>File discovery\<close>

definition skip_dirs :: "string list" where
  "skip_dirs = [''venv'', ''__pycache__'', ''.git'', ''storage'', ''.pytest_cache'',
     ''node_modules'', ''mcp-servers'']"

text \<open>
  \<open>_get_python_files\<close> of \<open>code_analyzer.py\<close>: \<open>os.walk\<close> visits a directory, then its
  subdirectories in order; the skipped names are taken out of the subdirectories before
  the descent.
\<close>

fun py_files_here :: "relpath \<Rightarrow> entry list \<Rightarrow> relpath list" where
  "py_files_here here [] = []"
| "py_files_here here (File f # es) =
     (if endswith f ''.py'' then (here @ [f]) # py_files_here here es
      else py_files_here here es)"
| "py_files_here here (Dir d sub # es) = py_files_here here es"

fun os_walk_py :: "relpath \<Rightarrow> entry list \<Rightarrow> relpath list"
  and os_walk_subdirs :: "relpath \<Rightarrow> entry list \<Rightarrow> relpath list" where
  "os_walk_py here es = py_files_here here es @ os_walk_subdirs here es"
| "os_walk_subdirs here [] = []"
| "os_walk_subdirs here (File f # es) = os_walk_subdirs here es"
| "os_walk_subdirs here (Dir d sub # es) =
     (if d \<in> set skip_dirs then [] else os_walk_py (here @ [d]) sub) @ os_walk_subdirs here es"

definition root_get_python_files :: "env \<Rightarrow> relpath list" where
  "root_get_python_files env =
     (case root_listing env of None \<Rightarrow> [] | Some es \<Rightarrow> os_walk_py [] es)"

text \<open>
  \<open>FileUtils.get_python_files\<close> of the package: \<open>rglob("*.py")\<close> yields every entry, file
  or directory, whose name ends in \<open>.py\<close>, in a directory and then in its subdirectories;
  a path is dropped when its string contains one of four names.
\<close>

fun entry_name :: "entry \<Rightarrow> string" where
  "entry_name (File f) = f"
| "entry_name (Dir d sub) = d"

fun rglob_py :: "relpath \<Rightarrow> entry list \<Rightarrow> relpath list"
  and rglob_subdirs :: "relpath \<Rightarrow> entry list \<Rightarrow> relpath list" where
  "rglob_py here es =
     map (\<lambda>e. here @ [entry_name e]) (filter (\<lambda>e. endswith (entry_name e) ''.py'') es)
       @ rglob_subdirs here es"
| "rglob_subdirs here [] = []"
| "rglob_subdirs here (File f # es) = rglob_subdirs here es"
| "rglob_subdirs here (Dir d sub # es) = rglob_py (here @ [d]) sub @ rglob_subdirs here es"

definition pkg_skip_parts :: "string list" where
  "pkg_skip_parts = [''__pycache__'', ''.pytest_cache'', ''venv'', ''.venv'']"

definition pkg_get_python_files :: "env \<Rightarrow> string \<Rightarrow> relpath list" where
  "pkg_get_python_files env root =
     (case root_listing env of
        None \<Rightarrow> []
      | Some es \<Rightarrow>
          filter (\<lambda>rel. \<not> list_ex (\<lambda>part. str_in part (path_str root rel)) pkg_skip_parts)
            (rglob_py [] es))"

section \<open>The syntax pass\<close>

definition root_syntax_file :: "env \<Rightarrow> string \<Rightarrow> state \<Rightarrow> relpath \<Rightarrow> state" where
  "root_syntax_file env root st rel =
     (let file_path = path_str root rel
      in case read_text env file_path of
           Content c \<Rightarrow>
             (case ast_parse env c of
                Parsed t \<Rightarrow> st
              | SyntaxError e \<Rightarrow>
                  add_error (''SYNTAX ERROR in '' @ file_path @ '': Line ''
                    @ str_opt_nat (se_lineno e) @ '': '' @ se_msg e) st
              | ParseError m \<Rightarrow> add_warning (''Could not parse '' @ file_path @ '': '' @ m) st)
         | UnicodeDecodeError m \<Rightarrow>
             add_warning (''Could not parse '' @ file_path @ '': '' @ m) st
         | ReadError m \<Rightarrow> add_warning (''Could not parse '' @ file_path @ '': '' @ m) st)"

definition root_check_syntax_errors :: "env \<Rightarrow> string \<Rightarrow> state \<Rightarrow> relpath list \<Rightarrow> state" where
  "root_check_syntax_errors env root st files = foldl (root_syntax_file env root) st files"

text \<open>The package parses without a file name, so the parser reports \<open><unknown>\<close>.\<close>

definition pkg_syntax_file :: "env \<Rightarrow> string \<Rightarrow> state \<Rightarrow> relpath \<Rightarrow> state" where
  "pkg_syntax_file env root st rel =
     (let py_file = path_str root rel
      in case read_text env py_file of
           Content c \<Rightarrow>
             (case ast_parse env c of
                Parsed t \<Rightarrow> st
              | SyntaxError e \<Rightarrow>
                  add_error (''Syntax error in '' @ py_file @ '': ''
                    @ str_SyntaxError ''<unknown>'' e) st
              | ParseError m \<Rightarrow> add_warning (''Error reading '' @ py_file @ '': '' @ m) st)
         | UnicodeDecodeError m \<Rightarrow> add_warning (''Could not decode '' @ py_file) st
         | ReadError m \<Rightarrow> add_warning (''Error reading '' @ py_file @ '': '' @ m) st)"

definition pkg_check_syntax_errors :: "env \<Rightarrow> string \<Rightarrow> state \<Rightarrow> relpath list \<Rightarrow> state" where
  "pkg_check_syntax_errors env root st files = foldl (pkg_syntax_file env root) st files"

section \<open>Reading and parsing in the other passes\<close>

text \<open>
  The arity, undefined-name and method passes, and the package's import pass, open with
  the same statements inside \<open>try\<close>: read the file, parse it. \<open>Inl\<close> is \<open>str(e)\<close> of the
  exception that \<open>except Exception\<close> catches.
\<close>

definition load_tree :: "env \<Rightarrow> string \<Rightarrow> string \<Rightarrow> string + node" where
  "load_tree env path fname =
     (case read_text env path of
        Content c \<Rightarrow>
          (case ast_parse env c of
             Parsed t \<Rightarrow> Inr t
           | SyntaxError e \<Rightarrow> Inl (str_SyntaxError fname e)
           | ParseError m \<Rightarrow> Inl m)
      | UnicodeDecodeError m \<Rightarrow> Inl m
      | ReadError m \<Rightarrow> Inl m)"

section \<open>The import pass\<close>

definition optional_packages :: "string list" where
  "optional_packages = [''selenium'', ''streamlit'', ''loguru'', ''pandas'', ''playwright'']"

definition root_module_name :: "relpath \<Rightarrow> string" where
  "root_module_name rel = join ''.'' (butlast rel @ [stem rel])"

text \<open>
  One iteration of the loop of \<open>_check_import_errors\<close> in \<open>code_analyzer.py\<close>. The first
  component of the result is \<open>None\<close> when the iteration ends, and the exception when one
  leaves the loop. The files come from discovery, so \<open>relative_to\<close> does not raise and the
  outer handler is not entered.
\<close>

definition root_import_file ::
  "env \<Rightarrow> string \<Rightarrow> state \<Rightarrow> relpath \<Rightarrow> string option \<times> state" where
  "root_import_file env root st rel =
     (let file_path = path_str root rel
      in if path_name rel = ''__init__.py'' \<or> str_in ''venv'' (rel_str rel) then (None, st)
         else case import_module env (root_module_name rel) of
                Imported \<Rightarrow> (None, st)
              | ImportError error_msg \<Rightarrow>
                  (if str_in ''No module named'' error_msg
                   then (if list_ex (\<lambda>pkg. str_in pkg error_msg) optional_packages
                         then (None, add_warning
                                (''MISSING DEPENDENCY in '' @ file_path @ '': '' @ error_msg) st)
                         else (None, add_error
                                (''IMPORT ERROR in '' @ file_path @ '': '' @ error_msg) st))
                   else (None, add_error
                          (''IMPORT ERROR in '' @ file_path @ '': '' @ error_msg) st))
              | ImportException m \<Rightarrow>
                  (None, add_error (''IMPORT ERROR in '' @ file_path @ '': '' @ m) st)
              | ImportBaseException x \<Rightarrow> (Some x, st))"

fun root_import_loop ::
  "env \<Rightarrow> string \<Rightarrow> state \<Rightarrow> relpath list \<Rightarrow> string option \<times> state" where
  "root_import_loop env root st [] = (None, st)"
| "root_import_loop env root st (rel # files) =
     (case root_import_file env root st rel of
        (None, st') \<Rightarrow> root_import_loop env root st' files
      | (Some x, st') \<Rightarrow> (Some x, st'))"

text \<open>
  \<open>sys.path.insert(0, root)\<close>, the loop, then the removal of the first entry equal to the
  root. The removal is a statement after the loop, so it does not run when an exception
  leaves the loop.
\<close>

definition root_check_import_errors ::
  "env \<Rightarrow> string \<Rightarrow> state \<Rightarrow> relpath list \<Rightarrow> string option \<times> state" where
  "root_check_import_errors env root st files =
     (case root_import_loop env root (st\<lparr>sys_path := root # sys_path st\<rparr>) files of
        (None, st') \<Rightarrow>
          (None, if root \<in> set (sys_path st')
                 then st'\<lparr>sys_path := remove1 root (sys_path st')\<rparr> else st')
      | (Some x, st') \<Rightarrow> (Some x, st'))"

text \<open>
  \<open>_check_module_exists\<close> of the package: the search path is copied, the root is put in
  front unless it is there, and the \<open>finally\<close> clause puts the copy back on every path.
  The state holds the value of \<open>sys.path\<close>, not the identity of the list object.
\<close>

definition pkg_check_module_exists ::
  "env \<Rightarrow> string \<Rightarrow> state \<Rightarrow> string \<Rightarrow> string \<Rightarrow> string option \<times> state" where
  "pkg_check_module_exists env root st module_name file_path =
     (let original_path = sys_path st;
          st1 = (if root \<notin> set (sys_path st) then st\<lparr>sys_path := root # sys_path st\<rparr> else st)
      in case import_module env module_name of
           Imported \<Rightarrow> (None, st1\<lparr>sys_path := original_path\<rparr>)
         | ImportError m \<Rightarrow>
             (if str_in ''.'' module_name \<or> startswith module_name ''_''
              then (None, (add_warning (''Potential missing module '' @ sq @ module_name @ sq
                            @ '' in '' @ file_path) st1)\<lparr>sys_path := original_path\<rparr>)
              else (None, (add_error (''Cannot import '' @ sq @ module_name @ sq
                            @ '' in '' @ file_path) st1)\<lparr>sys_path := original_path\<rparr>))
         | ImportException m \<Rightarrow>
             (None, (add_warning (''Error checking module '' @ sq @ module_name @ sq
                      @ '' in '' @ file_path @ '': '' @ m) st1)\<lparr>sys_path := original_path\<rparr>)
         | ImportBaseException x \<Rightarrow> (Some x, st1\<lparr>sys_path := original_path\<rparr>))"

text \<open>The module names that one node makes the package check, in order.\<close>

fun alias_name :: "import_alias \<Rightarrow> string" where
  "alias_name (Alias name asname) = name"

fun imported_modules :: "node \<Rightarrow> string list" where
  "imported_modules (Import names) = map alias_name names"
| "imported_modules (ImportFrom modname names) =
     (case modname of None \<Rightarrow> [] | Some m \<Rightarrow> (if m \<noteq> [] then [m] else []))"
| "imported_modules n = []"

fun pkg_check_modules ::
  "env \<Rightarrow> string \<Rightarrow> string \<Rightarrow> state \<Rightarrow> string list \<Rightarrow> string option \<times> state" where
  "pkg_check_modules env root file_path st [] = (None, st)"
| "pkg_check_modules env root file_path st (m # ms) =
     (case pkg_check_module_exists env root st m file_path of
        (None, st') \<Rightarrow> pkg_check_modules env root file_path st' ms
      | (Some x, st') \<Rightarrow> (Some x, st'))"

definition pkg_import_file ::
  "env \<Rightarrow> string \<Rightarrow> state \<Rightarrow> relpath \<Rightarrow> string option \<times> state" where
  "pkg_import_file env root st rel =
     (let py_file = path_str root rel
      in case load_tree env py_file ''<unknown>'' of
           Inl e \<Rightarrow> (None, add_warning (''Could not check imports for '' @ py_file @ '': '' @ e) st)
         | Inr tree \<Rightarrow>
             pkg_check_modules env root py_file st (concat (map imported_modules (walk tree))))"

fun pkg_check_import_errors ::
  "env \<Rightarrow> string \<Rightarrow> state \<Rightarrow> relpath list \<Rightarrow> string option \<times> state" where
  "pkg_check_import_errors env root st [] = (None, st)"
| "pkg_check_import_errors env root st (rel # files) =
     (case pkg_import_file env root st rel of
        (None, st') \<Rightarrow> pkg_check_import_errors env root st' files
      | (Some x, st') \<Rightarrow> (Some x, st'))"

section \<open>The arity pass\<close>

record func_def =
  required_args :: int
  total_args :: int
  line :: nat

text \<open>A collected call: callee name, positional count, keyword count, line.\<close>

type_synonym call = "string \<times> nat \<times> nat \<times> nat"

text \<open>The dictionary entry computed for a \<open>FunctionDef\<close> from \<open>args.args\<close> and \<open>args.defaults\<close>.\<close>

definition signature :: "string list \<Rightarrow> node list \<Rightarrow> nat \<Rightarrow> func_def" where
  "signature arg_names defaults lineno =
     (let args_count = int (length arg_names);
          args_count = (if args_count > 0 \<and> hd arg_names = ''self''
                        then args_count - 1 else args_count);
          defaults_count = int (length defaults);
          required = args_count - defaults_count
      in \<lparr>required_args = required, total_args = args_count, line = lineno\<rparr>)"

text \<open>
  The body of the loop over \<open>ast.walk(tree)\<close>: a call of a bare name is appended to
  \<open>function_calls\<close>, a definition is stored in \<open>function_defs\<close> under its bare name, so a
  later definition of the same name replaces an earlier one.
\<close>

fun param_visit ::
  "call list \<times> (string \<rightharpoonup> func_def) \<Rightarrow> node \<Rightarrow> call list \<times> (string \<rightharpoonup> func_def)" where
  "param_visit (calls, defs) (Call (Name func_name ctx l) args keywords lineno) =
     (calls @ [(func_name, length args, length keywords, lineno)], defs)"
| "param_visit (calls, defs) (FunctionDef name arg_names arg_nodes defaults body decs rest lineno) =
     (calls, defs(name \<mapsto> signature arg_names defaults lineno))"
| "param_visit (calls, defs) n = (calls, defs)"

definition function_calls :: "node list \<Rightarrow> call list" where
  "function_calls ns = fst (foldl param_visit ([], Map.empty) ns)"

definition function_defs :: "node list \<Rightarrow> (string \<rightharpoonup> func_def)" where
  "function_defs ns = snd (foldl param_visit ([], Map.empty) ns)"

definition too_few_msg :: "string \<Rightarrow> nat \<Rightarrow> string \<Rightarrow> int \<Rightarrow> int \<Rightarrow> string" where
  "too_few_msg file_path call_line call_name required provided =
     ''PARAMETER ERROR in '' @ file_path @ '':'' @ str_nat call_line @ '': ''
       @ ''Function '' @ sq @ call_name @ sq @ '' requires '' @ str_int required @ '' args ''
       @ ''but '' @ str_int provided @ '' provided''"

definition too_many_msg :: "impl \<Rightarrow> string \<Rightarrow> nat \<Rightarrow> string \<Rightarrow> int \<Rightarrow> int \<Rightarrow> string" where
  "too_many_msg v file_path call_line call_name total_count provided =
     ''PARAMETER ERROR in '' @ file_path @ '':'' @ str_nat call_line @ '': ''
       @ ''Function '' @ sq @ call_name @ sq
       @ (case v of Root \<Rightarrow> '' takes '' | Pkg \<Rightarrow> '' accepts max '')
       @ str_int total_count @ '' args '' @ ''but '' @ str_int provided @ '' provided''"

text \<open>The body of the loop over \<open>function_calls\<close>: the errors one call adds.\<close>

fun check_call :: "impl \<Rightarrow> string \<Rightarrow> (string \<rightharpoonup> func_def) \<Rightarrow> call \<Rightarrow> string list" where
  "check_call v file_path defs (call_name, call_args, call_kwargs, call_line) =
     (case defs call_name of
        None \<Rightarrow> []
      | Some func_def \<Rightarrow>
          (let total_provided = int call_args + int call_kwargs
           in if total_provided < required_args func_def
              then [too_few_msg file_path call_line call_name (required_args func_def)
                      total_provided]
              else if total_provided > total_args func_def
              then [too_many_msg v file_path call_line call_name (total_args func_def)
                      total_provided]
              else []))"

definition parameter_errors :: "impl \<Rightarrow> string \<Rightarrow> node \<Rightarrow> string list" where
  "parameter_errors v file_path tree =
     concat (map (check_call v file_path (function_defs (walk tree)))
       (function_calls (walk tree)))"

definition parameter_file :: "impl \<Rightarrow> env \<Rightarrow> string \<Rightarrow> state \<Rightarrow> relpath \<Rightarrow> state" where
  "parameter_file v env root st rel =
     (let file_path = path_str root rel
      in case load_tree env file_path (path_name rel) of
           Inl e \<Rightarrow>
             add_warning (''Could not check parameters ''
               @ (case v of Root \<Rightarrow> ''in '' | Pkg \<Rightarrow> ''for '') @ file_path @ '': '' @ e) st
         | Inr tree \<Rightarrow> add_errors (parameter_errors v file_path tree) st)"

definition check_parameter_mismatches ::
  "impl \<Rightarrow> env \<Rightarrow> string \<Rightarrow> state \<Rightarrow> relpath list \<Rightarrow> state" where
  "check_parameter_mismatches v env root st files = foldl (parameter_file v env root) st files"

section \<open>The undefined-name pass\<close>

definition builtin_names :: "string list" where
  "builtin_names = [''print'', ''str'', ''int'', ''float'', ''list'', ''dict'', ''len'', ''range'',
     ''enumerate'', ''Exception'', ''ValueError'', ''TypeError'', ''ImportError'',
     ''KeyError'', ''AttributeError'', ''FileNotFoundError'', ''SyntaxError'',
     ''KeyboardInterrupt'', ''StopIteration'', ''isinstance'', ''hasattr'',
     ''getattr'', ''setattr'', ''delattr'', ''bool'', ''tuple'', ''set'', ''max'',
     ''min'', ''sum'', ''abs'', ''all'', ''any'', ''open'', ''iter'', ''next'', ''zip'',
     ''map'', ''filter'', ''sorted'', ''reversed'', ''format'', ''repr'', ''hash'',
     ''id'', ''type'', ''super'', ''property'', ''staticmethod'', ''classmethod'',
     ''callable'', ''vars'', ''dir'', ''globals'', ''locals'', ''exec'', ''eval'',
     ''compile'', ''input'', ''round'', ''pow'', ''divmod'', ''chr'', ''ord'']"

text \<open>
  The set \<open>defined_names\<close> starts from the built-in list in \<open>code_analyzer.py\<close> and empty in
  the package.
\<close>

definition seed_names :: "impl \<Rightarrow> string set" where
  "seed_names v = (case v of Root \<Rightarrow> set builtin_names | Pkg \<Rightarrow> {})"

text \<open>\<open>alias.asname or alias.name\<close>\<close>

fun bound_name :: "import_alias \<Rightarrow> string" where
  "bound_name (Alias name asname) =
     (case asname of None \<Rightarrow> name | Some a \<Rightarrow> (if a \<noteq> [] then a else name))"

fun target_names :: "node list \<Rightarrow> string list" where
  "target_names [] = []"
| "target_names (Name ident ctx l # ts) = ident # target_names ts"
| "target_names (t # ts) = target_names ts"

definition undefined_msg :: "string \<Rightarrow> nat \<Rightarrow> string \<Rightarrow> string" where
  "undefined_msg file_path lineno ident =
     ''UNDEFINED VARIABLE in '' @ file_path @ '':'' @ str_nat lineno @ '': ''
       @ sq @ ident @ sq @ '' may be undefined''"

text \<open>
  The body of the single loop over \<open>ast.walk(tree)\<close>: the set of defined names and the
  warnings so far, before and after one node.
\<close>

fun undefined_visit ::
  "string \<Rightarrow> string set \<times> string list \<Rightarrow> node \<Rightarrow> string set \<times> string list" where
  "undefined_visit file_path (defined_names, ws) (Import names) =
     (defined_names \<union> set (map bound_name names), ws)"
| "undefined_visit file_path (defined_names, ws) (ImportFrom modname names) =
     (defined_names \<union> set (map bound_name names), ws)"
| "undefined_visit file_path (defined_names, ws) (Assign targets v) =
     (defined_names \<union> set (target_names targets), ws)"
| "undefined_visit file_path (defined_names, ws)
       (FunctionDef name arg_names arg_nodes defaults body decs rest lineno) =
     (insert name defined_names, ws)"
| "undefined_visit file_path (defined_names, ws) (ClassDef name bases body decs lineno) =
     (insert name defined_names, ws)"
| "undefined_visit file_path (defined_names, ws) (Name ident Load lineno) =
     (if ident \<notin> defined_names
      then (if \<not> (startswith ident ''_'' \<or> isupper ident)
            then (defined_names, ws @ [undefined_msg file_path lineno ident])
            else (defined_names, ws))
      else (defined_names, ws))"
| "undefined_visit file_path (defined_names, ws) n = (defined_names, ws)"

definition undefined_warnings :: "impl \<Rightarrow> string \<Rightarrow> node \<Rightarrow> string list" where
  "undefined_warnings v file_path tree =
     snd (foldl (undefined_visit file_path) (seed_names v, []) (walk tree))"

definition undefined_file :: "impl \<Rightarrow> env \<Rightarrow> string \<Rightarrow> state \<Rightarrow> relpath \<Rightarrow> state" where
  "undefined_file v env root st rel =
     (let file_path = path_str root rel
      in case load_tree env file_path (path_name rel) of
           Inl e \<Rightarrow>
             add_warning ((case v of Root \<Rightarrow> ''Could not check undefined variables in ''
                             | Pkg \<Rightarrow> ''Could not check variables for '')
               @ file_path @ '': '' @ e) st
         | Inr tree \<Rightarrow> add_warnings (undefined_warnings v file_path tree) st)"

definition check_undefined_variables ::
  "impl \<Rightarrow> env \<Rightarrow> string \<Rightarrow> state \<Rightarrow> relpath list \<Rightarrow> state" where
  "check_undefined_variables v env root st files = foldl (undefined_file v env root) st files"

section \<open>The method-signature pass\<close>

definition method_msg :: "string \<Rightarrow> nat \<Rightarrow> string \<Rightarrow> string" where
  "method_msg file_path lineno name =
     ''METHOD ERROR in '' @ file_path @ '':'' @ str_nat lineno @ '': ''
       @ ''Method '' @ sq @ name @ sq @ '' should have '' @ sq @ ''self'' @ sq
       @ '' as first parameter''"

fun is_static_or_class_name :: "node \<Rightarrow> bool" where
  "is_static_or_class_name (Name ident ctx l) = (ident \<in> set [''staticmethod'', ''classmethod''])"
| "is_static_or_class_name n = False"

definition has_decorator :: "node list \<Rightarrow> bool" where
  "has_decorator decorator_list = list_ex is_static_or_class_name decorator_list"

text \<open>The errors for one item of a class body.\<close>

fun method_item :: "string \<Rightarrow> node \<Rightarrow> string list" where
  "method_item file_path (FunctionDef name arg_names arg_nodes defaults body decorator_list rest lineno) =
     (if arg_names \<noteq> []
      then (if hd arg_names \<noteq> ''self'' \<and> \<not> startswith name ''_''
            then (if \<not> has_decorator decorator_list
                  then [method_msg file_path lineno name] else [])
            else [])
      else [method_msg file_path lineno name])"
| "method_item file_path n = []"

fun method_node :: "string \<Rightarrow> node \<Rightarrow> string list" where
  "method_node file_path (ClassDef name bases body decorator_list lineno) =
     concat (map (method_item file_path) body)"
| "method_node file_path n = []"

definition method_errors :: "string \<Rightarrow> node \<Rightarrow> string list" where
  "method_errors file_path tree = concat (map (method_node file_path) (walk tree))"

definition method_file :: "impl \<Rightarrow> env \<Rightarrow> string \<Rightarrow> state \<Rightarrow> relpath \<Rightarrow> state" where
  "method_file v env root st rel =
     (let file_path = path_str root rel
      in case load_tree env file_path (path_name rel) of
           Inl e \<Rightarrow>
             add_warning (''Could not check class methods ''
               @ (case v of Root \<Rightarrow> ''in '' | Pkg \<Rightarrow> ''for '') @ file_path @ '': '' @ e) st
         | Inr tree \<Rightarrow> add_errors (method_errors file_path tree) st)"

definition check_class_method_signatures ::
  "impl \<Rightarrow> env \<Rightarrow> string \<Rightarrow> state \<Rightarrow> relpath list \<Rightarrow> state" where
  "check_class_method_signatures v env root st files = foldl (method_file v env root) st files"

section \<open>The entry points\<close>

text \<open>
  An entry point returns the dictionary with the two buckets, or an exception leaves it
  (\<open>Inl\<close>); the second component is the state it leaves behind.
\<close>

definition the_result :: "state \<Rightarrow> result" where
  "the_result st = \<lparr>r_errors = errors st, r_warnings = warnings st\<rparr>"

definition reset :: "state \<Rightarrow> state" where
  "reset st = st\<lparr>errors := [], warnings := []\<rparr>"

definition root_analyze_all :: "env \<Rightarrow> string \<Rightarrow> state \<Rightarrow> (string + result) \<times> state" where
  "root_analyze_all env root st =
     (let st0 = reset st;
          python_files = root_get_python_files env;
          st1 = root_check_syntax_errors env root st0 python_files
      in case root_check_import_errors env root st1 python_files of
           (Some x, st2) \<Rightarrow> (Inl x, st2)
         | (None, st2) \<Rightarrow>
             (let st3 = check_parameter_mismatches Root env root st2 python_files;
                  st4 = check_undefined_variables Root env root st3 python_files;
                  st5 = check_class_method_signatures Root env root st4 python_files
              in (Inr (the_result st5), st5)))"

definition root_analyze_specific ::
  "env \<Rightarrow> string \<Rightarrow> state \<Rightarrow> string \<Rightarrow> (string + result) \<times> state" where
  "root_analyze_specific env root st analysis_type =
     (let st0 = reset st;
          python_files = root_get_python_files env
      in if analysis_type = ''syntax''
         then (let st1 = root_check_syntax_errors env root st0 python_files
               in (Inr (the_result st1), st1))
         else if analysis_type = ''imports''
         then (case root_check_import_errors env root st0 python_files of
                 (Some x, st1) \<Rightarrow> (Inl x, st1)
               | (None, st1) \<Rightarrow> (Inr (the_result st1), st1))
         else if analysis_type = ''parameters''
         then (let st1 = check_parameter_mismatches Root env root st0 python_files
               in (Inr (the_result st1), st1))
         else if analysis_type = ''methods''
         then (let st1 = check_class_method_signatures Root env root st0 python_files
               in (Inr (the_result st1), st1))
         else if analysis_type = ''comprehensive''
         then root_analyze_all env root st0
         else (let st1 = add_error (''Unknown analysis type: '' @ analysis_type) st0
               in (Inr (the_result st1), st1)))"

definition pkg_analyze_all :: "env \<Rightarrow> string \<Rightarrow> state \<Rightarrow> (string + result) \<times> state" where
  "pkg_analyze_all env root st =
     (let st0 = reset st;
          python_files = pkg_get_python_files env root;
          st1 = pkg_check_syntax_errors env root st0 python_files
      in case pkg_check_import_errors env root st1 python_files of
           (Some x, st2) \<Rightarrow> (Inl x, st2)
         | (None, st2) \<Rightarrow>
             (let st3 = check_parameter_mismatches Pkg env root st2 python_files;
                  st4 = check_undefined_variables Pkg env root st3 python_files;
                  st5 = check_class_method_signatures Pkg env root st4 python_files
              in (Inr (the_result st5), st5)))"

definition pkg_analyze_specific ::
  "env \<Rightarrow> string \<Rightarrow> state \<Rightarrow> string \<Rightarrow> (string + result) \<times> state" where
  "pkg_analyze_specific env root st analysis_type =
     (let st0 = reset st;
          python_files = pkg_get_python_files env root
      in if analysis_type = ''syntax''
         then (let st1 = pkg_check_syntax_errors env root st0 python_files
               in (Inr (the_result st1), st1))
         else if analysis_type = ''imports''
         then (case pkg_check_import_errors env root st0 python_files of
                 (Some x, st1) \<Rightarrow> (Inl x, st1)
               | (None, st1) \<Rightarrow> (Inr (the_result st1), st1))
         else if analysis_type = ''parameters''
         then (let st1 = check_parameter_mismatches Pkg env root st0 python_files
               in (Inr (the_result st1), st1))
         else if analysis_type = ''variables''
         then (let st1 = check_undefined_variables Pkg env root st0 python_files
               in (Inr (the_result st1), st1))
         else if analysis_type = ''methods''
         then (let st1 = check_class_method_signatures Pkg env root st0 python_files
               in (Inr (the_result st1), st1))
         else (let st1 = add_warning (''Unknown analysis type: '' @ analysis_type) st0
               in (Inr (the_result st1), st1)))"

section \<open>Example inputs\<close>

text \<open>The analyzer object after \<open>__init__\<close>, in an interpreter with the given search path.\<close>

definition init_state :: "string list \<Rightarrow> state" where
  "init_state sp = \<lparr>errors = [], warnings = [], sys_path = sp\<rparr>"


text \<open>
  A class with a static method that takes no arguments:
  \<^verbatim>\<open>
  class C:
      @staticmethod
      def make():
          return 1
  \<close>
\<close>

definition static_example :: node where
  "static_example = Other
     [ClassDef ''C'' []
        [FunctionDef ''make'' [] [] [] [Other [Other []]] [Name ''staticmethod'' Load 2] [] 3]
        [] 1]"

text \<open>
  A name read on line 1 and assigned on line 3, inside an \<open>if\<close>:
  \<^verbatim>\<open>
  y = x
  if True:
      x = 1
  \<close>
\<close>

definition forward_example :: node where
  "forward_example = Other
     [Assign [Name ''y'' Store 1] (Name ''x'' Load 1),
      Other [Other [], Assign [Name ''x'' Store 3] (Other [])]]"

text \<open>A project root that does not exist.\<close>

definition no_root_env :: env where
  "no_root_env =
     \<lparr>root_listing = None,
      read_text = (\<lambda>p. ReadError ''No such file or directory''),
      ast_parse = (\<lambda>c. Parsed (Other [])),
      import_module = (\<lambda>m. Imported)\<rparr>"

text \<open>
  A project at \<open>/p\<close> with four files: \<open>app.py\<close> divides by zero when it is loaded,
  \<open>report.py\<close> imports \<open>pandas\<close>, which is not installed, \<open>bad.py\<close> does not parse and
  \<open>latin.py\<close> is not UTF-8.
\<close>

definition sample_env :: env where
  "sample_env =
     \<lparr>root_listing = Some [File ''app.py'', File ''report.py'', File ''bad.py'', File ''latin.py''],
      read_text = (\<lambda>p.
        if p = ''/p/app.py'' then Content ''x = 1 / 0''
        else if p = ''/p/report.py'' then Content ''import pandas''
        else if p = ''/p/bad.py'' then Content ''def f(:''
        else if p = ''/p/latin.py'' then UnicodeDecodeError ''invalid start byte''
        else ReadError ''No such file or directory''),
      ast_parse = (\<lambda>c.
        if c = ''x = 1 / 0''
        then Parsed (Other [Assign [Name ''x'' Store 1] (Other [Other [], Other [], Other []])])
        else if c = ''import pandas'' then Parsed (Other [Import [Alias ''pandas'' None]])
        else SyntaxError \<lparr>se_lineno = Some 1, se_msg = ''invalid syntax''\<rparr>),
      import_module = (\<lambda>m.
        if m = ''app'' then ImportException ''division by zero''
        else if m = ''report'' \<or> m = ''pandas''
        then ImportError (''No module named '' @ sq @ ''pandas'' @ sq)
        else if m = ''bad'' \<or> m = ''latin''
        then ImportException ''invalid syntax (bad.py, line 1)''
        else Imported)\<rparr>"

text \<open>
  A project at \<open>/p\<close> with two files: \<open>boom.py\<close> is \<open>raise SystemExit(1)\<close> and \<open>main.py\<close> is
  \<open>import boom\<close>, so loading either raises \<open>SystemExit\<close>.
\<close>

definition boom_env :: env where
  "boom_env =
     \<lparr>root_listing = Some [File ''boom.py'', File ''main.py''],
      read_text = (\<lambda>p.
        if p = ''/p/boom.py'' then Content ''raise SystemExit(1)''
        else if p = ''/p/main.py'' then Content ''import boom''
        else ReadError ''No such file or directory''),
      ast_parse = (\<lambda>c.
        if c = ''raise SystemExit(1)''
        then Parsed (Other [Other [Call (Name ''SystemExit'' Load 1) [Other []] [] 1]])
        else if c = ''import boom'' then Parsed (Other [Import [Alias ''boom'' None]])
        else SyntaxError \<lparr>se_lineno = Some 1, se_msg = ''invalid syntax''\<rparr>),
      import_module = (\<lambda>m.
        if m = ''boom'' \<or> m = ''main'' then ImportBaseException ''SystemExit'' else Imported)\<rparr>"

section \<open>Vocabulary of the statements\<close>

text \<open>
  The names that a node defines: the bound names of an import, the simple targets of an
  assignment, the name of a function or class definition.
\<close>

fun defined_by :: "node \<Rightarrow> string list" where
  "defined_by (Import names) = map bound_name names"
| "defined_by (ImportFrom modname names) = map bound_name names"
| "defined_by (Assign targets v) = target_names targets"
| "defined_by (FunctionDef name arg_names arg_nodes defaults body decs rest lineno) = [name]"
| "defined_by (ClassDef name bases body decs lineno) = [name]"
| "defined_by n = []"

definition defined_in :: "node list \<Rightarrow> string set" where
  "defined_in ns = set (concat (map defined_by ns))"



text \<open>The warnings that the loop of the undefined-name pass adds over a run of nodes.\<close>

definition warnings_from :: "string \<Rightarrow> string set \<Rightarrow> node list \<Rightarrow> string list" where
  "warnings_from file_path known ns = snd (foldl (undefined_visit file_path) (known, []) ns)"

section \<open>Facts about strings\<close>

lemma str_in_sublist: "str_in sub s = sublist sub s"
  by (induction s) (auto simp: sublist_Cons_right)

lemma str_in_middle: "str_in sub (a @ sub @ b)"
  by (simp add: str_in_sublist)

lemma endswith_rev: "endswith s p = prefix (rev p) (rev s)"
  by (simp add: endswith_def suffix_to_prefix)

section \<open>Facts about the buckets\<close>

lemma add_error_simps [simp]:
  "errors (add_error m st) = errors st @ [m]"
  "warnings (add_error m st) = warnings st"
  "sys_path (add_error m st) = sys_path st"
  by (simp_all add: add_error_def)

lemma add_warning_simps [simp]:
  "errors (add_warning m st) = errors st"
  "warnings (add_warning m st) = warnings st @ [m]"
  "sys_path (add_warning m st) = sys_path st"
  by (simp_all add: add_warning_def)

section \<open>The arity pass: the counts of a definition\<close>














section \<open>The arity pass: when a call is an error\<close>




text \<open>For a file that parses, each pass appends what its loop over the tree gives.\<close>

lemma parameter_file_parsed:
  "load_tree env (path_str root rel) (path_name rel) = Inr tree \<Longrightarrow>
   parameter_file v env root st rel
     = add_errors (parameter_errors v (path_str root rel) tree) st"
  by (simp add: parameter_file_def Let_def)

lemma undefined_file_parsed:
  "load_tree env (path_str root rel) (path_name rel) = Inr tree \<Longrightarrow>
   undefined_file v env root st rel
     = add_warnings (undefined_warnings v (path_str root rel) tree) st"
  by (simp add: undefined_file_def Let_def)

lemma method_file_parsed:
  "load_tree env (path_str root rel) (path_name rel) = Inr tree \<Longrightarrow>
   method_file v env root st rel = add_errors (method_errors (path_str root rel) tree) st"
  by (simp add: method_file_def Let_def)



section \<open>The method-signature pass\<close>

lemma method_item_with_parameters:
  "arg_names \<noteq> [] \<Longrightarrow>
   method_item file_path (FunctionDef name arg_names arg_nodes defaults body decs rest lineno)
     = (if hd arg_names \<noteq> ''self'' \<and> \<not> startswith name ''_'' \<and> \<not> has_decorator decs
        then [method_msg file_path lineno name] else [])"
  by simp

lemma method_item_without_parameters:
  "method_item file_path (FunctionDef name [] arg_nodes defaults body decs rest lineno)
     = [method_msg file_path lineno name]"
  by simp

text \<open>
  Claim C3. The claim exempts a method that carries the \<open>staticmethod\<close> decorator. The
  pass tests the decorators only for a method with parameters; for \<open>static_example\<close>, whose
  static method \<open>make\<close> has none, it reports \<open>make\<close>.
\<close>

theorem static_method_without_parameters_reported:
  "has_decorator [Name ''staticmethod'' Load 2]
   \<and> method_errors ''/p/m.py'' static_example = [method_msg ''/p/m.py'' 3 ''make'']"
  by (simp add: method_errors_def static_example_def walk_def has_decorator_def)

theorem static_method_without_parameters_reported_witness:
  "method_errors ''/p/m.py'' static_example \<noteq> []"
  using static_method_without_parameters_reported by simp

section \<open>The undefined-name pass\<close>

lemma undefined_visit_fst:
  "fst (undefined_visit p (D, ws) n) = D \<union> set (defined_by n)"
proof (cases n)
  case (Name ident c l)
  then show ?thesis by (cases c) simp_all
qed simp_all

lemma undefined_visit_snd:
  "snd (undefined_visit p (D, ws) n) = ws @ snd (undefined_visit p (D, []) n)"
proof (cases n)
  case (Name ident c l)
  then show ?thesis by (cases c) simp_all
qed simp_all

lemma undefined_fold_fst:
  "fst (foldl (undefined_visit p) (D, ws) ns) = D \<union> defined_in ns"
proof (induction ns arbitrary: D ws)
  case Nil
  then show ?case by (simp add: defined_in_def)
next
  case (Cons n ns)
  obtain D' ws' where s: "undefined_visit p (D, ws) n = (D', ws')"
    by (cases "undefined_visit p (D, ws) n")
  have "D' = D \<union> set (defined_by n)"
    using undefined_visit_fst [of p D ws n] s by simp
  with Cons [of D' ws'] s show ?case by (auto simp: defined_in_def)
qed

lemma undefined_fold_snd:
  "snd (foldl (undefined_visit p) (D, ws) ns) = ws @ warnings_from p D ns"
proof (induction ns arbitrary: D ws)
  case Nil
  then show ?case by (simp add: warnings_from_def)
next
  case (Cons n ns)
  obtain D' ws' where s: "undefined_visit p (D, ws) n = (D', ws')"
    by (cases "undefined_visit p (D, ws) n")
  obtain D'' ws'' where s0: "undefined_visit p (D, []) n = (D'', ws'')"
    by (cases "undefined_visit p (D, []) n")
  have d: "D' = D''"
    using undefined_visit_fst [of p D ws n] undefined_visit_fst [of p D "[]" n] s s0 by simp
  have w: "ws' = ws @ ws''"
    using undefined_visit_snd [of p D ws n] s s0 by simp
  have "snd (foldl (undefined_visit p) (D, ws) (n # ns)) = ws' @ warnings_from p D' ns"
    using Cons [of D' ws'] s by simp
  moreover have "warnings_from p D (n # ns) = ws'' @ warnings_from p D'' ns"
    using Cons [of D'' ws''] s0 by (simp add: warnings_from_def)
  ultimately show ?case using d w by simp
qed

lemma undefined_fold_pair:
  "foldl (undefined_visit p) (D, ws) ns = (D \<union> defined_in ns, ws @ warnings_from p D ns)"
  using undefined_fold_fst [of p D ws ns] undefined_fold_snd [of p D ws ns]
  by (simp add: prod_eq_iff)

lemma warnings_from_split:
  "warnings_from p D (pre @ Name ident Load lineno # post)
     = warnings_from p D pre
       @ (if ident \<in> D \<union> defined_in pre \<or> startswith ident ''_'' \<or> isupper ident then []
          else [undefined_msg p lineno ident])
       @ warnings_from p (D \<union> defined_in pre) post"
proof -
  let ?K = "D \<union> defined_in pre"
  let ?W = "warnings_from p D pre"
  let ?here = "(if ident \<in> ?K \<or> startswith ident ''_'' \<or> isupper ident then []
          else [undefined_msg p lineno ident])"
  have step: "undefined_visit p (?K, ?W) (Name ident Load lineno) = (?K, ?W @ ?here)"
    by simp
  have "warnings_from p D (pre @ Name ident Load lineno # post)
      = snd (foldl (undefined_visit p)
          (undefined_visit p (foldl (undefined_visit p) (D, []) pre) (Name ident Load lineno)) post)"
    unfolding warnings_from_def by simp
  also have "foldl (undefined_visit p) (D, []) pre = (?K, ?W)"
    using undefined_fold_pair [of p D "[]" pre] by simp
  also have "undefined_visit p (?K, ?W) (Name ident Load lineno) = (?K, ?W @ ?here)"
    by (rule step)
  also have "snd (foldl (undefined_visit p) (?K, ?W @ ?here) post)
      = (?W @ ?here) @ warnings_from p ?K post"
    by (rule undefined_fold_snd)
  finally show ?thesis by simp
qed

lemma forward_example_walk:
  "walk forward_example
     = [forward_example, Assign [Name ''y'' Store 1] (Name ''x'' Load 1),
        Other [Other [], Assign [Name ''x'' Store 3] (Other [])], Name ''y'' Store 1]
       @ Name ''x'' Load 1
       # [Other [], Assign [Name ''x'' Store 3] (Other []), Other [], Other [],
          Name ''x'' Store 3, Other [], Other []]"
  by (simp add: walk_def forward_example_def)

text \<open>
  Claim C4 as stated fails: in \<open>forward_example\<close> the name \<open>x\<close> is the target of a simple
  assignment of the file, and its use on line 1 is reported, because the walk reaches the
  use before the assignment.
\<close>

theorem forward_reference_counterexample:
  "''x'' \<in> defined_in (walk forward_example)
   \<and> undefined_warnings Root ''/p/m.py'' forward_example = [undefined_msg ''/p/m.py'' 1 ''x'']"
  by (simp add: undefined_warnings_def forward_example_def walk_def seed_names_def
      builtin_names_def defined_in_def startswith_def isupper_def ascii_upper_def
      ascii_lower_def)

text \<open>
  Claim C4, amended. The pass is one loop over the breadth-first walk. At a value-reading
  use the known names are the pass's start set (the built-in list in \<open>code_analyzer.py\<close>,
  empty in the package) and the names defined by the nodes that the walk yields before
  the use; the use adds a warning exactly when its name is not among them and is neither
  underscore-prefixed nor upper case. Nodes that the walk yields after the use have no
  effect on it.
\<close>

theorem known_names_follow_walk_order:
  "walk tree = pre @ Name ident Load lineno # post \<Longrightarrow>
   undefined_warnings v p tree
     = warnings_from p (seed_names v) pre
       @ (if ident \<in> seed_names v \<union> defined_in pre \<or> startswith ident ''_'' \<or> isupper ident
          then [] else [undefined_msg p lineno ident])
       @ warnings_from p (seed_names v \<union> defined_in pre) post"
  using warnings_from_split [of p "seed_names v" pre ident lineno post]
  by (simp add: undefined_warnings_def warnings_from_def)

theorem known_names_follow_walk_order_witness:
  "undefined_warnings Pkg ''/p/m.py'' forward_example
     = warnings_from ''/p/m.py'' (seed_names Pkg)
         [forward_example, Assign [Name ''y'' Store 1] (Name ''x'' Load 1),
          Other [Other [], Assign [Name ''x'' Store 3] (Other [])], Name ''y'' Store 1]
       @ [undefined_msg ''/p/m.py'' 1 ''x'']
       @ warnings_from ''/p/m.py'' (insert ''y'' (seed_names Pkg))
           [Other [], Assign [Name ''x'' Store 3] (Other []), Other [], Other [],
            Name ''x'' Store 3, Other [], Other []]"
  using known_names_follow_walk_order [OF forward_example_walk, of Pkg "''/p/m.py''"]
  by (simp add: seed_names_def defined_in_def forward_example_def startswith_def isupper_def
      ascii_upper_def ascii_lower_def)

section \<open>The syntax pass\<close>

lemma root_syntax_error_finding:
  assumes "read_text env (path_str root rel) = Content c" and "ast_parse env c = SyntaxError e"
  shows "root_syntax_file env root st rel
    = add_error (''SYNTAX ERROR in '' @ path_str root rel @ '': Line ''
        @ str_opt_nat (se_lineno e) @ '': '' @ se_msg e) st"
  using assms by (simp add: root_syntax_file_def Let_def)

lemma pkg_syntax_error_finding:
  assumes "read_text env (path_str root rel) = Content c" and "ast_parse env c = SyntaxError e"
  shows "pkg_syntax_file env root st rel
    = add_error (''Syntax error in '' @ path_str root rel @ '': ''
        @ str_SyntaxError ''<unknown>'' e) st"
  using assms by (simp add: pkg_syntax_file_def Let_def)

lemma syntax_other_failure:
  assumes "read_text env (path_str root rel) = Content c \<and> ast_parse env c = ParseError x
    \<or> read_text env (path_str root rel) = UnicodeDecodeError x
    \<or> read_text env (path_str root rel) = ReadError x"
  shows "(\<exists>m. root_syntax_file env root st rel = add_warning m st)
    \<and> (\<exists>m. pkg_syntax_file env root st rel = add_warning m st)"
  using assms by (auto simp: root_syntax_file_def pkg_syntax_file_def Let_def)

text \<open>
  Claim C6. For one file of the syntax pass, in both copies of the analyzer: when the
  parser rejects the text, one finding is appended to the errors, and it contains the
  file path and the line number that the parser reports; when the file cannot be decoded
  or read, or parsing raises another exception, one finding is appended to the warnings
  and the errors are as before; when the text parses, nothing changes. The pass treats
  the files one after the other with this step.
\<close>

theorem syntax_pass_findings:
  "(read_text env (path_str root rel) = Content c \<and> ast_parse env c = SyntaxError e \<longrightarrow>
      (\<exists>m. root_syntax_file env root st rel = add_error m st
          \<and> str_in (path_str root rel) m
          \<and> str_in (str_opt_nat (se_lineno e)) m)
      \<and> (\<exists>m. pkg_syntax_file env root st rel = add_error m st
          \<and> str_in (path_str root rel) m
          \<and> (\<forall>n. se_lineno e = Some n \<longrightarrow> str_in (str_nat n) m)))
   \<and> (read_text env (path_str root rel) = Content c \<and> ast_parse env c = ParseError x
        \<or> read_text env (path_str root rel) = UnicodeDecodeError x
        \<or> read_text env (path_str root rel) = ReadError x \<longrightarrow>
      (\<exists>m. root_syntax_file env root st rel = add_warning m st)
      \<and> (\<exists>m. pkg_syntax_file env root st rel = add_warning m st))
   \<and> (read_text env (path_str root rel) = Content c \<and> ast_parse env c = Parsed t \<longrightarrow>
      root_syntax_file env root st rel = st \<and> pkg_syntax_file env root st rel = st)
   \<and> root_check_syntax_errors env root st (files @ [rel])
       = root_syntax_file env root (root_check_syntax_errors env root st files) rel
   \<and> pkg_check_syntax_errors env root st (files @ [rel])
       = pkg_syntax_file env root (pkg_check_syntax_errors env root st files) rel"
proof (intro conjI impI)
  assume a: "read_text env (path_str root rel) = Content c \<and> ast_parse env c = SyntaxError e"
  let ?m = "''SYNTAX ERROR in '' @ path_str root rel @ '': Line ''
        @ str_opt_nat (se_lineno e) @ '': '' @ se_msg e"
  have "str_in (path_str root rel) ?m"
    by (rule str_in_middle)
  moreover have "str_in (str_opt_nat (se_lineno e)) ?m"
    using str_in_middle [of "str_opt_nat (se_lineno e)"
        "''SYNTAX ERROR in '' @ path_str root rel @ '': Line ''" "'': '' @ se_msg e"]
    by simp
  ultimately show "\<exists>m. root_syntax_file env root st rel = add_error m st
      \<and> str_in (path_str root rel) m \<and> str_in (str_opt_nat (se_lineno e)) m"
    using a root_syntax_error_finding [of env root rel c e st] by blast
next
  assume a: "read_text env (path_str root rel) = Content c \<and> ast_parse env c = SyntaxError e"
  let ?m = "''Syntax error in '' @ path_str root rel @ '': '' @ str_SyntaxError ''<unknown>'' e"
  have "str_in (path_str root rel) ?m"
    by (rule str_in_middle)
  moreover have "\<forall>n. se_lineno e = Some n \<longrightarrow> str_in (str_nat n) ?m"
  proof (intro allI impI)
    fix n
    assume "se_lineno e = Some n"
    then show "str_in (str_nat n) ?m"
      using str_in_middle [of "str_nat n"
          "''Syntax error in '' @ path_str root rel @ '': '' @ se_msg e @ '' (<unknown>, line ''"
          "'')''"]
      by (simp add: str_SyntaxError_def)
  qed
  ultimately show "\<exists>m. pkg_syntax_file env root st rel = add_error m st
      \<and> str_in (path_str root rel) m \<and> (\<forall>n. se_lineno e = Some n \<longrightarrow> str_in (str_nat n) m)"
    using a pkg_syntax_error_finding [of env root rel c e st] by blast
next
  assume a: "read_text env (path_str root rel) = Content c \<and> ast_parse env c = ParseError x
      \<or> read_text env (path_str root rel) = UnicodeDecodeError x
      \<or> read_text env (path_str root rel) = ReadError x"
  show "\<exists>m. root_syntax_file env root st rel = add_warning m st"
    using syntax_other_failure [OF a] by blast
  show "\<exists>m. pkg_syntax_file env root st rel = add_warning m st"
    using syntax_other_failure [OF a] by blast
next
  assume a: "read_text env (path_str root rel) = Content c \<and> ast_parse env c = Parsed t"
  show "root_syntax_file env root st rel = st"
    using a by (simp add: root_syntax_file_def Let_def)
  show "pkg_syntax_file env root st rel = st"
    using a by (simp add: pkg_syntax_file_def Let_def)
next
  show "root_check_syntax_errors env root st (files @ [rel])
      = root_syntax_file env root (root_check_syntax_errors env root st files) rel"
    by (simp add: root_check_syntax_errors_def)
  show "pkg_check_syntax_errors env root st (files @ [rel])
      = pkg_syntax_file env root (pkg_check_syntax_errors env root st files) rel"
    by (simp add: pkg_check_syntax_errors_def)
qed

theorem syntax_pass_findings_witness:
  "(\<exists>m. root_syntax_file sample_env ''/p'' (init_state []) [''bad.py'']
          = add_error m (init_state [])
        \<and> str_in ''/p/bad.py'' m \<and> str_in ''1'' m)
   \<and> (\<exists>m. pkg_syntax_file sample_env ''/p'' (init_state []) [''bad.py'']
          = add_error m (init_state [])
        \<and> str_in ''/p/bad.py'' m \<and> str_in ''1'' m)
   \<and> (\<exists>m. pkg_syntax_file sample_env ''/p'' (init_state []) [''latin.py'']
          = add_warning m (init_state []))
   \<and> root_syntax_file sample_env ''/p'' (init_state []) [''app.py''] = init_state []"
proof -
  have bad: "read_text sample_env (path_str ''/p'' [''bad.py'']) = Content ''def f(:''
      \<and> ast_parse sample_env ''def f(:''
        = SyntaxError \<lparr>se_lineno = Some 1, se_msg = ''invalid syntax''\<rparr>"
    by (simp add: sample_env_def path_str_def)
  have latin: "read_text sample_env (path_str ''/p'' [''latin.py''])
      = UnicodeDecodeError ''invalid start byte''"
    by (simp add: sample_env_def path_str_def)
  have app: "read_text sample_env (path_str ''/p'' [''app.py'']) = Content ''x = 1 / 0''
      \<and> ast_parse sample_env ''x = 1 / 0''
        = Parsed (Other [Assign [Name ''x'' Store 1] (Other [Other [], Other [], Other []])])"
    by (simp add: sample_env_def path_str_def)
  have p: "path_str ''/p'' [''bad.py''] = ''/p/bad.py''"
    by (simp add: path_str_def)
  have one: "str_nat (Suc 0) = ''1''"
    by (simp add: str_nat.simps digit_char_def)
  show ?thesis
    using syntax_pass_findings [of sample_env "''/p''" "[''bad.py'']" "''def f(:''"
        "\<lparr>se_lineno = Some 1, se_msg = ''invalid syntax''\<rparr>" "init_state []"] bad
      syntax_pass_findings [of sample_env "''/p''" "[''latin.py'']" _ _ "init_state []"
        "''invalid start byte''"] latin
      syntax_pass_findings [of sample_env "''/p''" "[''app.py'']" "''x = 1 / 0''" _
        "init_state []" _
        "Other [Assign [Name ''x'' Store 1] (Other [Other [], Other [], Other []])]"] app
    by (simp add: p one str_opt_nat_def)
qed

section \<open>The import pass: how a failure is classified\<close>

lemma pkg_restore_warning:
  "(add_warning m (if root \<notin> set (sys_path st) then st\<lparr>sys_path := root # sys_path st\<rparr> else st))
     \<lparr>sys_path := sys_path st\<rparr> = add_warning m st"
  by (simp add: add_warning_def)

lemma pkg_restore_error:
  "(add_error m (if root \<notin> set (sys_path st) then st\<lparr>sys_path := root # sys_path st\<rparr> else st))
     \<lparr>sys_path := sys_path st\<rparr> = add_error m st"
  by (simp add: add_error_def)

text \<open>
  Claim C5 as stated fails in both copies. In \<open>code_analyzer.py\<close> an exception other than
  \<open>ImportError\<close> raised while \<open>app.py\<close> is loaded becomes an error, not a warning. The
  package has no allow-list: the missing \<open>pandas\<close> becomes an error.
\<close>

theorem import_classification_counterexample:
  "root_import_file sample_env ''/p'' (init_state []) [''app.py'']
     = (None, add_error ''IMPORT ERROR in /p/app.py: division by zero'' (init_state []))
   \<and> pkg_check_module_exists sample_env ''/p'' (init_state []) ''pandas'' ''/p/report.py''
     = (None, add_error (''Cannot import '' @ sq @ ''pandas'' @ sq @ '' in /p/report.py'')
          (init_state []))"
  by (simp add: root_import_file_def pkg_check_module_exists_def sample_env_def Let_def
      path_str_def path_name_def rel_str_def root_module_name_def stem_def
      startswith_def init_state_def add_error_def)

text \<open>
  Claim C5, amended. In \<open>code_analyzer.py\<close>, for a file that is not skipped: an
  \<open>ImportError\<close> whose text contains \<open>No module named\<close> and one of the five allow-listed
  names gives a warning, every other \<open>ImportError\<close> gives an error, and every other exception
  of class \<open>Exception\<close> raised by the import gives an error. In the package there is no
  allow-list: an \<open>ImportError\<close> gives a warning when the module name contains a dot or
  starts with an underscore and an error otherwise, and every other exception of class
  \<open>Exception\<close> gives a warning.
\<close>

theorem import_classification:
  "(\<not> (path_name rel = ''__init__.py'' \<or> str_in ''venv'' (rel_str rel)) \<longrightarrow>
      (import_module env (root_module_name rel) = ImportError msg \<longrightarrow>
         root_import_file env root st rel
           = (None,
              if str_in ''No module named'' msg
                \<and> list_ex (\<lambda>pkg. str_in pkg msg) optional_packages
              then add_warning (''MISSING DEPENDENCY in '' @ path_str root rel @ '': '' @ msg) st
              else add_error (''IMPORT ERROR in '' @ path_str root rel @ '': '' @ msg) st))
      \<and> (import_module env (root_module_name rel) = ImportException msg \<longrightarrow>
         root_import_file env root st rel
           = (None, add_error (''IMPORT ERROR in '' @ path_str root rel @ '': '' @ msg) st)))
   \<and> (import_module env module_name = ImportError msg \<longrightarrow>
         pkg_check_module_exists env root st module_name file_path
           = (None,
              if str_in ''.'' module_name \<or> startswith module_name ''_''
              then add_warning (''Potential missing module '' @ sq @ module_name @ sq
                     @ '' in '' @ file_path) st
              else add_error (''Cannot import '' @ sq @ module_name @ sq
                     @ '' in '' @ file_path) st))
   \<and> (import_module env module_name = ImportException msg \<longrightarrow>
         pkg_check_module_exists env root st module_name file_path
           = (None, add_warning (''Error checking module '' @ sq @ module_name @ sq
                     @ '' in '' @ file_path @ '': '' @ msg) st))"
  by (simp add: root_import_file_def pkg_check_module_exists_def Let_def pkg_restore_warning
      pkg_restore_error)

theorem import_classification_witness:
  "root_import_file sample_env ''/p'' (init_state []) [''report.py'']
     = (None, add_warning (''MISSING DEPENDENCY in /p/report.py: No module named ''
          @ sq @ ''pandas'' @ sq) (init_state []))
   \<and> pkg_check_module_exists sample_env ''/p'' (init_state []) ''pandas'' ''/p/report.py''
     = (None, add_error (''Cannot import '' @ sq @ ''pandas'' @ sq @ '' in /p/report.py'')
          (init_state []))"
proof -
  have skip: "\<not> (path_name [''report.py''] = ''__init__.py'' \<or> str_in ''venv'' (rel_str [''report.py'']))"
    by (simp add: path_name_def rel_str_def)
  have name: "root_module_name [''report.py''] = ''report''"
    by (simp add: root_module_name_def stem_def path_name_def)
  have r: "import_module sample_env ''report'' = ImportError (''No module named '' @ sq @ ''pandas'' @ sq)"
    by (simp add: sample_env_def)
  have q: "import_module sample_env ''pandas'' = ImportError (''No module named '' @ sq @ ''pandas'' @ sq)"
    by (simp add: sample_env_def)
  have listed: "str_in ''No module named'' (''No module named '' @ sq @ ''pandas'' @ sq)
      \<and> list_ex (\<lambda>pkg. str_in pkg (''No module named '' @ sq @ ''pandas'' @ sq)) optional_packages"
    by (simp add: optional_packages_def sq_def)
  have plain: "\<not> (str_in ''.'' ''pandas'' \<or> startswith ''pandas'' ''_'')"
    by (simp add: startswith_def)
  show ?thesis
    using import_classification [of "[''report.py'']" sample_env
        "''No module named '' @ sq @ ''pandas'' @ sq" "''/p''" "init_state []" "''pandas''"
        "''/p/report.py''"]
      skip name r q listed plain
    by (simp add: path_str_def)
qed

section \<open>The import pass: the search path\<close>

lemma root_import_file_sys_path:
  "sys_path (snd (root_import_file env root st rel)) = sys_path st"
  by (simp add: root_import_file_def Let_def split: import_result.splits)

lemma root_import_loop_sys_path:
  "sys_path (snd (root_import_loop env root st files)) = sys_path st"
proof (induction files arbitrary: st)
  case Nil
  then show ?case by simp
next
  case (Cons rel files)
  obtain x st' where s: "root_import_file env root st rel = (x, st')"
    by (cases "root_import_file env root st rel")
  have "sys_path st' = sys_path st"
    using root_import_file_sys_path [of env root st rel] s by simp
  with Cons [of st'] s show ?case by (cases x) simp_all
qed

text \<open>When the loop of \<open>code_analyzer.py\<close> runs to its end, the search path is as before.\<close>

lemma root_import_restores_on_completion:
  assumes "fst (root_check_import_errors env root st files) = None"
  shows "sys_path (snd (root_check_import_errors env root st files)) = sys_path st"
proof -
  obtain x st' where
    s: "root_import_loop env root (st\<lparr>sys_path := root # sys_path st\<rparr>) files = (x, st')"
    by (cases "root_import_loop env root (st\<lparr>sys_path := root # sys_path st\<rparr>) files")
  have p: "sys_path st' = root # sys_path st"
    using root_import_loop_sys_path [of env root "st\<lparr>sys_path := root # sys_path st\<rparr>" files] s
    by simp
  from assms s have "x = None"
    by (cases x) (simp_all add: root_check_import_errors_def)
  with s p show ?thesis by (simp add: root_check_import_errors_def)
qed

text \<open>When an exception leaves the loop, the root stays in front of the search path.\<close>

lemma root_import_escape_leaves_root:
  assumes "fst (root_check_import_errors env root st files) = Some x"
  shows "sys_path (snd (root_check_import_errors env root st files)) = root # sys_path st"
proof -
  obtain y st' where
    s: "root_import_loop env root (st\<lparr>sys_path := root # sys_path st\<rparr>) files = (y, st')"
    by (cases "root_import_loop env root (st\<lparr>sys_path := root # sys_path st\<rparr>) files")
  have p: "sys_path st' = root # sys_path st"
    using root_import_loop_sys_path [of env root "st\<lparr>sys_path := root # sys_path st\<rparr>" files] s
    by simp
  from assms s have "y = Some x"
    by (cases y) (simp_all add: root_check_import_errors_def)
  with s p show ?thesis by (simp add: root_check_import_errors_def)
qed

lemma pkg_check_module_exists_sys_path:
  "sys_path (snd (pkg_check_module_exists env root st m file_path)) = sys_path st"
  by (simp add: pkg_check_module_exists_def Let_def split: import_result.splits)

lemma pkg_check_modules_sys_path:
  "sys_path (snd (pkg_check_modules env root file_path st ms)) = sys_path st"
proof (induction ms arbitrary: st)
  case Nil
  then show ?case by simp
next
  case (Cons m ms)
  obtain x st' where s: "pkg_check_module_exists env root st m file_path = (x, st')"
    by (cases "pkg_check_module_exists env root st m file_path")
  have "sys_path st' = sys_path st"
    using pkg_check_module_exists_sys_path [of env root st m file_path] s by simp
  with Cons [of st'] s show ?case by (cases x) simp_all
qed

lemma pkg_import_file_sys_path:
  "sys_path (snd (pkg_import_file env root st rel)) = sys_path st"
  by (simp add: pkg_import_file_def Let_def pkg_check_modules_sys_path split: sum.splits)

text \<open>The package's pass leaves the search path as it found it, on every path.\<close>

lemma pkg_import_restores_always:
  "sys_path (snd (pkg_check_import_errors env root st files)) = sys_path st"
proof (induction files arbitrary: st)
  case Nil
  then show ?case by simp
next
  case (Cons rel files)
  obtain x st' where s: "pkg_import_file env root st rel = (x, st')"
    by (cases "pkg_import_file env root st rel")
  have "sys_path st' = sys_path st"
    using pkg_import_file_sys_path [of env root st rel] s by simp
  with Cons [of st'] s show ?case by (cases x) simp_all
qed

text \<open>
  Claim C8. The claim asks that the search path is restored on every exit path of the
  pass. In \<open>code_analyzer.py\<close> the removal is a statement after the loop: for the project
  \<open>boom_env\<close>, where loading \<open>boom.py\<close> raises \<open>SystemExit\<close>, the exception leaves the pass
  and the project root \<open>/p\<close> is still the first entry of the search path. The package's
  pass, which restores in a \<open>finally\<close> clause, leaves the search path as it was on the
  same input.
\<close>

theorem root_import_pass_leaves_root_on_path:
  "root_check_import_errors boom_env ''/p'' (init_state [''/usr/lib/python3''])
       [[''boom.py''], [''main.py'']]
     = (Some ''SystemExit'',
        \<lparr>errors = [], warnings = [], sys_path = [''/p'', ''/usr/lib/python3'']\<rparr>)
   \<and> pkg_check_import_errors boom_env ''/p'' (init_state [''/usr/lib/python3''])
       [[''boom.py''], [''main.py'']]
     = (Some ''SystemExit'',
        \<lparr>errors = [], warnings = [], sys_path = [''/usr/lib/python3'']\<rparr>)"
  by (simp add: root_check_import_errors_def root_import_file_def boom_env_def Let_def
      path_str_def path_name_def rel_str_def root_module_name_def stem_def
      init_state_def pkg_import_file_def load_tree_def walk_def pkg_check_module_exists_def)

theorem root_import_pass_leaves_root_on_path_witness:
  "sys_path (snd (root_check_import_errors boom_env ''/p'' (init_state [''/usr/lib/python3''])
       [[''boom.py''], [''main.py'']])) \<noteq> sys_path (init_state [''/usr/lib/python3''])"
  using root_import_pass_leaves_root_on_path by (simp add: init_state_def)

section \<open>The entry points: an unknown analysis type\<close>

text \<open>
  Claim C1 as stated fails for \<open>code_analyzer.py\<close>: for the type \<open>style\<close> the finding is in
  the errors and the warnings are empty.
\<close>

theorem unknown_type_counterexample:
  "fst (root_analyze_specific no_root_env ''/p'' (init_state []) ''style'')
     = Inr \<lparr>r_errors = [''Unknown analysis type: style''], r_warnings = []\<rparr>"
  by (simp add: root_analyze_specific_def Let_def reset_def init_state_def the_result_def
      add_error_def)

text \<open>
  Claim C1, amended. For an analysis type that is none of the names an entry point
  tests for, the package's \<open>analyze_specific\<close> returns empty errors and the one finding
  \<open>Unknown analysis type\<close> in the warnings, and that of \<open>code_analyzer.py\<close> returns the one
  finding in the errors and empty warnings. The package tests for \<open>syntax\<close>, \<open>imports\<close>,
  \<open>parameters\<close>, \<open>variables\<close> and \<open>methods\<close>; \<open>code_analyzer.py\<close> for \<open>syntax\<close>, \<open>imports\<close>,
  \<open>parameters\<close>, \<open>methods\<close> and \<open>comprehensive\<close>.
\<close>

theorem unknown_type_finding:
  "(analysis_type \<notin> {''syntax'', ''imports'', ''parameters'', ''variables'', ''methods''} \<longrightarrow>
      fst (pkg_analyze_specific env root st analysis_type)
        = Inr \<lparr>r_errors = [], r_warnings = [''Unknown analysis type: '' @ analysis_type]\<rparr>)
   \<and> (analysis_type \<notin> {''syntax'', ''imports'', ''parameters'', ''methods'', ''comprehensive''} \<longrightarrow>
      fst (root_analyze_specific env root st analysis_type)
        = Inr \<lparr>r_errors = [''Unknown analysis type: '' @ analysis_type], r_warnings = []\<rparr>)"
  by (simp add: pkg_analyze_specific_def root_analyze_specific_def Let_def reset_def
      the_result_def add_error_def add_warning_def)

theorem unknown_type_finding_witness:
  "fst (pkg_analyze_specific sample_env ''/p'' (init_state []) ''style'')
     = Inr \<lparr>r_errors = [], r_warnings = [''Unknown analysis type: style'']\<rparr>
   \<and> fst (root_analyze_specific sample_env ''/p'' (init_state []) ''style'')
     = Inr \<lparr>r_errors = [''Unknown analysis type: style''], r_warnings = []\<rparr>"
  using unknown_type_finding [of "''style''" sample_env "''/p''" "init_state []"] by simp

section \<open>The entry points: returning\<close>



















section \<open>The entry points: the buckets start empty\<close>

lemma sample_syntax_run:
  "pkg_analyze_specific sample_env ''/p'' (init_state []) ''syntax''
     = (Inr \<lparr>r_errors = [''Syntax error in /p/bad.py: invalid syntax (<unknown>, line 1)''],
             r_warnings = [''Could not decode /p/latin.py'']\<rparr>,
        \<lparr>errors = [''Syntax error in /p/bad.py: invalid syntax (<unknown>, line 1)''],
         warnings = [''Could not decode /p/latin.py''], sys_path = []\<rparr>)"
  by (simp add: pkg_analyze_specific_def Let_def sample_env_def pkg_get_python_files_def
      pkg_skip_parts_def pkg_check_syntax_errors_def pkg_syntax_file_def path_str_def
      endswith_rev init_state_def reset_def the_result_def add_error_def add_warning_def
      str_SyntaxError_def str_nat.simps digit_char_def)

text \<open>
  Claim C10. Each entry point of both copies first empties the two buckets, so what it
  returns, and the state it leaves, do not depend on the buckets it finds: a call on an
  analyzer in any state gives what the same call gives on a new analyzer. Findings of
  earlier calls are never part of a later result.
\<close>

theorem results_do_not_accumulate:
  "root_analyze_all env root st = root_analyze_all env root (init_state (sys_path st))
   \<and> root_analyze_specific env root st t
       = root_analyze_specific env root (init_state (sys_path st)) t
   \<and> pkg_analyze_all env root st = pkg_analyze_all env root (init_state (sys_path st))
   \<and> pkg_analyze_specific env root st t
       = pkg_analyze_specific env root (init_state (sys_path st)) t"
proof -
  have r: "reset (init_state (sys_path st)) = reset st"
    by (simp add: reset_def init_state_def)
  show ?thesis
    unfolding root_analyze_all_def root_analyze_specific_def pkg_analyze_all_def
      pkg_analyze_specific_def r
    by simp
qed

theorem results_do_not_accumulate_witness:
  "fst (pkg_analyze_specific sample_env ''/p''
          (snd (pkg_analyze_specific sample_env ''/p'' (init_state []) ''syntax'')) ''syntax'')
     = Inr \<lparr>r_errors = [''Syntax error in /p/bad.py: invalid syntax (<unknown>, line 1)''],
            r_warnings = [''Could not decode /p/latin.py'']\<rparr>"
  using results_do_not_accumulate [of sample_env "''/p''"
      "snd (pkg_analyze_specific sample_env ''/p'' (init_state []) ''syntax'')" "''syntax''"]
  by (simp add: sample_syntax_run)

end
